theory Spec2Isabelle
  imports Main "HOL-Library.Word"
begin

section \<open>The glyph array accessors of text/harfbuzz.c\<close>

text \<open>
  The source file holds two functions, each a single return statement:

  \<^verbatim>\<open>hb_glyph_info_t *get_glyph_info(hb_glyph_info_t *info, unsigned int i) { return &info[i]; }\<close>

  \<^verbatim>\<open>hb_glyph_position_t *get_glyph_position(hb_glyph_position_t *pos, unsigned int i) { return &pos[i]; }\<close>

  The two record types come from the header of the shaping library, which the
  source includes and does not define. The accessors use one fact about each type
  only, its size in bytes, and the model takes that size as the first argument of
  each accessor.
\<close>

subsection \<open>Values of the C program\<close>

text \<open>
  A pointer is a value of a fixed width, \<open>'w word\<close>: 64 bits on the usual targets,
  32 bits on the small ones. The width is left open, so every property below holds
  for each of them. Arithmetic on pointer values is modulo \<open>2 ^ LENGTH('w)\<close>;
  \<open>unat p\<close> is the address a pointer holds. The index has type
  \<^verbatim>\<open>unsigned int\<close>, 32 bits wide, whose arithmetic and conversions are modulo
  \<open>2 ^ 32\<close>.
\<close>

type_synonym uint = "32 word"
type_synonym byte = "8 word"

text \<open>
  The memory the shaping library's arrays live in, over the pointers \<open>'p\<close> of the
  target: the byte held at each address, and the addresses that belong to a live
  object. Creating or destroying a record changes the second, writing to one
  changes the first.
\<close>

record 'p memory =
  contents :: "'p \<Rightarrow> byte"
  allocated :: "'p set"

definition empty_memory :: "'p memory" where
  "empty_memory = \<lparr>contents = (\<lambda>a. 0), allocated = {}\<rparr>"

text \<open>
  The conditions an indexing function could report. A call yields either one of
  them or a value, together with the memory it leaves behind.
\<close>

datatype error = IndexOutOfRange | InvalidPointer

type_synonym ('p, 'a) c_fun = "'p memory \<Rightarrow> (error + 'a) \<times> 'p memory"

text \<open>\<^verbatim>\<open>return v;\<close> ends the call normally with \<open>v\<close> and stores nothing.\<close>

definition c_return :: "'a \<Rightarrow> ('p, 'a) c_fun" where
  "c_return v mem = (Inr v, mem)"

text \<open>
  Two calls in sequence, the second on the value of the first and in the memory the
  first has left; an error of the first ends the sequence.
\<close>

definition c_bind :: "('p, 'a) c_fun \<Rightarrow> ('a \<Rightarrow> ('p, 'b) c_fun) \<Rightarrow> ('p, 'b) c_fun" where
  "c_bind f g mem =
     (case f mem of
        (Inl e, mem') \<Rightarrow> (Inl e, mem')
      | (Inr v, mem') \<Rightarrow> g v mem')"

text \<open>
  \<^verbatim>\<open>&p[i]\<close> for a pointer \<open>p\<close> to elements of \<open>sz\<close> bytes. C evaluates it as
  \<^verbatim>\<open>p + i\<close>: neither the \<^verbatim>\<open>&\<close> nor the dereference implied by \<^verbatim>\<open>[]\<close> takes
  place, no byte is read, and the pointer advances by \<open>i\<close> elements, that is by
  \<open>i * sz\<close> bytes. The index is read as the unsigned number it is; the sum is a
  pointer value again, so it is taken modulo the width of a pointer.
\<close>

definition index_addr :: "nat \<Rightarrow> 'w::len word \<Rightarrow> uint \<Rightarrow> 'w word" where
  "index_addr sz p i = p + word_of_nat (unat i * sz)"

text \<open>
  An integer argument passed for a parameter of type \<^verbatim>\<open>unsigned int\<close> is
  converted to that type, that is, reduced modulo \<open>2 ^ 32\<close>.
\<close>

definition uint_of_int :: "int \<Rightarrow> uint" where
  "uint_of_int x = word_of_int x"

subsection \<open>The two accessors\<close>

text \<open>The first argument is \<^verbatim>\<open>sizeof(hb_glyph_info_t)\<close>.\<close>

definition get_glyph_info :: "nat \<Rightarrow> 'w::len word \<Rightarrow> uint \<Rightarrow> ('w word, 'w word) c_fun" where
  "get_glyph_info sizeof_info info i = c_return (index_addr sizeof_info info i)"

text \<open>The first argument is \<^verbatim>\<open>sizeof(hb_glyph_position_t)\<close>.\<close>

definition get_glyph_position :: "nat \<Rightarrow> 'w::len word \<Rightarrow> uint \<Rightarrow> ('w word, 'w word) c_fun" where
  "get_glyph_position sizeof_position pos i = c_return (index_addr sizeof_position pos i)"

subsection \<open>The arrays the accessors are applied to\<close>

text \<open>
  An array of \<open>n\<close> contiguous records of \<open>k\<close> bytes at base \<open>B\<close>: the first
  record starts at \<open>B\<close> and each further record starts where the one before it
  ends. \<open>record_addrs\<close> lists the pointers to the records, in order.
\<close>

primrec record_addrs :: "nat \<Rightarrow> 'w::len word \<Rightarrow> nat \<Rightarrow> 'w word list" where
  "record_addrs k B 0 = []"
| "record_addrs k B (Suc n) = B # record_addrs k (B + word_of_nat k) n"

text \<open>
  The first address past the array, as a number. The array lies in the address
  space when that number does not exceed the number of addresses; a pointer is in
  the valid range of the array when it holds the address of one of its bytes.
\<close>

definition array_end :: "nat \<Rightarrow> 'w::len word \<Rightarrow> nat \<Rightarrow> nat" where
  "array_end k B n = unat B + n * k"

definition array_at :: "nat \<Rightarrow> 'w::len word \<Rightarrow> nat \<Rightarrow> bool" where
  "array_at k B n \<longleftrightarrow> array_end k B n \<le> 2 ^ LENGTH('w)"

definition in_array :: "nat \<Rightarrow> 'w::len word \<Rightarrow> nat \<Rightarrow> 'w word \<Rightarrow> bool" where
  "in_array k B n a \<longleftrightarrow> unat B \<le> unat a \<and> unat a < array_end k B n"

text \<open>The bytes of the record at a pointer, and the records of an array, as memory holds them.\<close>

definition read_record :: "nat \<Rightarrow> 'w::len word memory \<Rightarrow> 'w word \<Rightarrow> byte list" where
  "read_record k mem a = map (\<lambda>off. contents mem (a + word_of_nat off)) [0 ..< k]"

definition read_array :: "nat \<Rightarrow> 'w::len word memory \<Rightarrow> 'w word \<Rightarrow> nat \<Rightarrow> byte list list" where
  "read_array k mem B n = map (read_record k mem) (record_addrs k B n)"

text \<open>
  The addressing rule in the words of the specification, on addresses as numbers:
  base address plus index times record size. \<open>ptr_of_addr\<close> is the pointer value
  that stands for such a number, the number modulo the width of a pointer.
\<close>

definition contract_address :: "nat \<Rightarrow> nat \<Rightarrow> nat \<Rightarrow> nat" where
  "contract_address base index record_size = base + index * record_size"

definition ptr_of_addr :: "nat \<Rightarrow> 'w::len word" where
  "ptr_of_addr a = word_of_nat a"

section \<open>Properties\<close>

subsection \<open>The layout of an array\<close>

lemma length_record_addrs: "length (record_addrs k B n) = n"
  by (induction n arbitrary: B) simp_all

lemma nth_record_addrs: "j < n \<Longrightarrow> record_addrs k B n ! j = B + word_of_nat (j * k)"
proof (induction n arbitrary: B j)
  case 0
  then show ?case by simp
next
  case (Suc n)
  show ?case
  proof (cases j)
    case 0
    then show ?thesis by simp
  next
    case (Suc j')
    with Suc.prems have "j' < n" by simp
    then have "record_addrs k (B + word_of_nat k) n ! j' = B + word_of_nat k + word_of_nat (j' * k)"
      by (rule Suc.IH)
    with Suc show ?thesis by (simp add: add.assoc)
  qed
qed

lemma last_record_addrs:
  assumes "0 < n"
  shows "last (record_addrs k B n) = B + word_of_nat ((n - 1) * k)"
proof -
  from assms have "record_addrs k B n \<noteq> []"
    using length_record_addrs [of k B n] by auto
  then have "last (record_addrs k B n) = record_addrs k B n ! (n - 1)"
    by (simp add: last_conv_nth length_record_addrs)
  also from assms have "\<dots> = B + word_of_nat ((n - 1) * k)"
    by (simp add: nth_record_addrs)
  finally show ?thesis .
qed

subsection \<open>What a call computes\<close>

lemma get_glyph_info_eq:
  "get_glyph_info k B i m = (Inr (B + word_of_nat (unat i * k)), m)"
  by (simp add: get_glyph_info_def c_return_def index_addr_def)

lemma get_glyph_position_eq:
  "get_glyph_position k B i m = (Inr (B + word_of_nat (unat i * k)), m)"
  by (simp add: get_glyph_position_def c_return_def index_addr_def)

text \<open>
  The pointer returned holds the sum of the base address and the byte offset modulo
  the number of addresses, and the sum itself where that is an address.
\<close>

lemma unat_offset_mod:
  fixes B :: "'w::len word"
  shows "unat (B + word_of_nat x) = (unat B + x) mod 2 ^ LENGTH('w)"
  by (simp add: unat_word_ariths unat_of_nat mod_add_right_eq)

lemma unat_offset_exact:
  fixes B :: "'w::len word"
  assumes "unat B + x < 2 ^ LENGTH('w)"
  shows "unat (B + word_of_nat x) = unat B + x"
  using assms by (simp add: unat_offset_mod)

lemma ptr_of_contract_address:
  "ptr_of_addr (contract_address (unat B) j k) = B + word_of_nat (j * k)"
  by (simp add: ptr_of_addr_def contract_address_def)

text \<open>Three records of 20 bytes at 0x1000, for pointers of any width.\<close>

lemma scenario_layout:
  "record_addrs 20 0x1000 3 = [0x1000, 0x1014, 0x1028]"
proof -
  have "record_addrs 20 0x1000 (Suc (Suc (Suc 0))) = [0x1000, 0x1014, 0x1028]"
    by simp
  then show ?thesis
    by (simp only: numeral_3_eq_3)
qed

text \<open>An index within an array that lies in the address space gives an address.\<close>

lemma in_range_offset_fits:
  fixes B :: "'w::len word"
  assumes "array_at k B n" and "j < n"
  shows "unat B + j * k < 2 ^ LENGTH('w)"
proof (cases "k = 0")
  case True
  have "unat B < 2 ^ LENGTH('w)"
    by (rule unsigned_less)
  with True show ?thesis by simp
next
  case False
  with assms(2) have "j * k < n * k" by simp
  then have "unat B + j * k < unat B + n * k"
    by (rule add_strict_left_mono)
  also from assms(1) have "\<dots> \<le> 2 ^ LENGTH('w)"
    by (simp only: array_at_def array_end_def)
  finally show ?thesis .
qed

subsection \<open>The contract of the accessors\<close>

text \<open>
  C1. For an array of \<open>n\<close> contiguous records at base \<open>B\<close> and an index \<open>i\<close>
  below \<open>n\<close>, each accessor returns the pointer to record \<open>i\<close> of the array,
  base plus index times record size; for the index \<open>n - 1\<close> that is the pointer to
  the last record. Where the array lies in the address space, the address returned
  is the number \<open>B + i * k\<close> exactly.
\<close>

theorem accessor_returns_record_address:
  fixes B :: "'w::len word"
  assumes "unat i < n"
  shows "get_glyph_info k B i m = (Inr (B + word_of_nat (unat i * k)), m)
       \<and> get_glyph_info k B i m = (Inr (record_addrs k B n ! unat i), m)
       \<and> get_glyph_position k' B i m = (Inr (B + word_of_nat (unat i * k')), m)
       \<and> get_glyph_position k' B i m = (Inr (record_addrs k' B n ! unat i), m)
       \<and> (unat i = n - 1 \<longrightarrow>
            get_glyph_info k B i m = (Inr (last (record_addrs k B n)), m)
          \<and> get_glyph_position k' B i m = (Inr (last (record_addrs k' B n)), m))
       \<and> (array_at k B n \<longrightarrow> unat (B + word_of_nat (unat i * k)) = unat B + unat i * k)
       \<and> (array_at k' B n \<longrightarrow> unat (B + word_of_nat (unat i * k')) = unat B + unat i * k')"
proof -
  from assms have nth: "record_addrs s B n ! unat i = B + word_of_nat (unat i * s)" for s
    by (rule nth_record_addrs)
  from assms have "0 < n" by simp
  then have lst: "last (record_addrs s B n) = B + word_of_nat (unat i * s)"
    if "unat i = n - 1" for s
    using that by (simp add: last_record_addrs)
  have exact: "unat (B + word_of_nat (unat i * s)) = unat B + unat i * s"
    if "array_at s B n" for s
    using that assms by (intro unat_offset_exact in_range_offset_fits)
  from nth lst exact show ?thesis
    by (simp add: get_glyph_info_eq get_glyph_position_eq)
qed

theorem accessor_returns_record_address_witness:
  "unat (2 :: uint) < (3 :: nat)
   \<and> array_at 20 (4096 :: 64 word) 3
   \<and> get_glyph_info 20 (4096 :: 64 word) 2 empty_memory = (Inr 4136, empty_memory)
   \<and> get_glyph_position 20 (4096 :: 64 word) 2 empty_memory = (Inr 4136, empty_memory)
   \<and> record_addrs 20 (4096 :: 64 word) 3 ! 2 = 4136
   \<and> last (record_addrs 20 (4096 :: 64 word) 3) = 4136
   \<and> unat (4096 + word_of_nat (unat (2 :: uint) * 20) :: 64 word) = 4136"
proof -
  have h: "unat (2 :: uint) < (3 :: nat)" by simp
  have fits: "array_at 20 (4096 :: 64 word) 3"
    by (simp add: array_at_def array_end_def)
  have layout: "record_addrs 20 (4096 :: 64 word) 3 = [4096, 4116, 4136]"
    by (simp add: numeral_3_eq_3)
  from accessor_returns_record_address
         [OF h, where B = "4096 :: 64 word" and k = 20 and m = empty_memory and k' = 20]
       layout h fits
  show ?thesis by simp
qed

text \<open>
  C2. With index 0 each accessor returns the base address itself.
\<close>

theorem accessor_index_zero:
  "get_glyph_info k B 0 m = (Inr B, m) \<and> get_glyph_position k' B 0 m = (Inr B, m)"
  by (simp add: get_glyph_info_eq get_glyph_position_eq)

text \<open>
  C3. Each accessor is deterministic and stateless: the value it returns is the same
  in every memory, so it depends on the base address and the index alone, and a
  second call with the same base address and index, made in the memory the first
  call has left, returns what the first call returned.
\<close>

theorem accessor_deterministic:
  "fst (get_glyph_info k B i m) = fst (get_glyph_info k B i m')
   \<and> fst (get_glyph_position k' B i m) = fst (get_glyph_position k' B i m')
   \<and> fst (get_glyph_info k B i (snd (get_glyph_info k B i m))) = fst (get_glyph_info k B i m)
   \<and> fst (get_glyph_position k' B i (snd (get_glyph_position k' B i m)))
       = fst (get_glyph_position k' B i m)"
proof -
  have info: "fst (get_glyph_info k B i x) = Inr (B + word_of_nat (unat i * k))" for x
    by (simp add: get_glyph_info_eq)
  have pos: "fst (get_glyph_position k' B i x) = Inr (B + word_of_nat (unat i * k'))" for x
    by (simp add: get_glyph_position_eq)
  show ?thesis
    unfolding info pos by simp
qed

text \<open>
  C4. For three glyph info records of 20 bytes each at base address 0x1000, the
  accessor returns 0x1000 for index 0, 0x1014 for index 1 and 0x1028 for index 2,
  which are the pointers to the three records of that array; with pointers of 64
  and of 32 bits these hold the addresses 0x1000, 0x1014 and 0x1028.
\<close>

theorem get_glyph_info_scenario:
  "get_glyph_info 20 0x1000 0 m = (Inr 0x1000, m)
   \<and> get_glyph_info 20 0x1000 1 m = (Inr 0x1014, m)
   \<and> get_glyph_info 20 0x1000 2 m = (Inr 0x1028, m)
   \<and> record_addrs 20 0x1000 3 = [0x1000, 0x1014, 0x1028]
   \<and> map unat (record_addrs 20 (0x1000 :: 64 word) 3) = [0x1000, 0x1014, 0x1028]
   \<and> map unat (record_addrs 20 (0x1000 :: 32 word) 3) = [0x1000, 0x1014, 0x1028]"
  by (simp add: scenario_layout get_glyph_info_eq)

text \<open>
  C5. A call of either accessor has no side effect: the memory after the call is the
  memory before it, so every record of the array, and every other byte, holds what
  it held before, and the same addresses are allocated: no record is created,
  changed or destroyed.
\<close>

theorem accessor_no_side_effect:
  "snd (get_glyph_info k B i m) = m
   \<and> snd (get_glyph_position k' B i m) = m
   \<and> read_array k (snd (get_glyph_info k B i m)) B n = read_array k m B n
   \<and> read_array k' (snd (get_glyph_position k' B i m)) B n = read_array k' m B n
   \<and> allocated (snd (get_glyph_info k B i m)) = allocated m
   \<and> allocated (snd (get_glyph_position k' B i m)) = allocated m"
proof -
  have "snd (get_glyph_info k B i m) = m"
    by (simp add: get_glyph_info_def c_return_def)
  moreover have "snd (get_glyph_position k' B i m) = m"
    by (simp add: get_glyph_position_def c_return_def)
  ultimately show ?thesis by simp
qed

text \<open>
  C6. No call of either accessor ends in an error: for every record size, base
  address, index and memory the call ends normally with an address.
\<close>

theorem accessor_never_fails:
  "(\<exists>a. fst (get_glyph_info k B i m) = Inr a)
   \<and> (\<exists>a. fst (get_glyph_position k' B i m) = Inr a)
   \<and> fst (get_glyph_info k B i m) \<noteq> Inl e
   \<and> fst (get_glyph_position k' B i m) \<noteq> Inl e"
  by (simp add: get_glyph_info_eq get_glyph_position_eq)

text \<open>
  C7. The two accessors are one function of the record size: given the same record
  size they agree on every base address, index and memory. Each returns the pointer
  value of the address the specification's rule gives, base address plus index times
  the size of its own record type; where that number is an address, it is the
  address the returned pointer holds.
\<close>

theorem accessors_same_contract:
  fixes B :: "'w::len word"
  shows "get_glyph_position k = (get_glyph_info k :: 'w word \<Rightarrow> uint \<Rightarrow> ('w word, 'w word) c_fun)
   \<and> get_glyph_info k B i m = (Inr (ptr_of_addr (contract_address (unat B) (unat i) k)), m)
   \<and> get_glyph_position k' B i m
       = (Inr (ptr_of_addr (contract_address (unat B) (unat i) k')), m)
   \<and> (contract_address (unat B) (unat i) k < 2 ^ LENGTH('w) \<longrightarrow>
        unat (ptr_of_addr (contract_address (unat B) (unat i) k) :: 'w word)
          = contract_address (unat B) (unat i) k)
   \<and> (contract_address (unat B) (unat i) k' < 2 ^ LENGTH('w) \<longrightarrow>
        unat (ptr_of_addr (contract_address (unat B) (unat i) k') :: 'w word)
          = contract_address (unat B) (unat i) k')"
proof -
  have "get_glyph_position k p j = get_glyph_info k p j" for p :: "'w word" and j
    by (simp add: get_glyph_position_def get_glyph_info_def)
  then have same: "get_glyph_position k = (get_glyph_info k :: 'w word \<Rightarrow> uint \<Rightarrow> ('w word, 'w word) c_fun)"
    by (intro ext) simp
  have exact: "unat (ptr_of_addr (contract_address (unat B) (unat i) s) :: 'w word)
                 = contract_address (unat B) (unat i) s"
    if "contract_address (unat B) (unat i) s < 2 ^ LENGTH('w)" for s
    using that by (simp add: ptr_of_addr_def unat_of_nat)
  from same exact show ?thesis
    by (simp add: ptr_of_contract_address get_glyph_info_eq get_glyph_position_eq)
qed

theorem accessors_same_contract_witness:
  "contract_address (unat (4096 :: 64 word)) (unat (2 :: uint)) 20 < 2 ^ LENGTH(64)
   \<and> contract_address (unat (4096 :: 64 word)) (unat (2 :: uint)) 20 = 4136
   \<and> get_glyph_info 20 (4096 :: 64 word) 2 empty_memory = (Inr (ptr_of_addr 4136), empty_memory)
   \<and> get_glyph_position 20 (4096 :: 64 word) 2 empty_memory
       = (Inr (ptr_of_addr 4136), empty_memory)
   \<and> unat (ptr_of_addr 4136 :: 64 word) = 4136"
proof -
  have c: "contract_address (unat (4096 :: 64 word)) (unat (2 :: uint)) 20 = 4136"
    by (simp add: contract_address_def)
  from accessors_same_contract
         [where B = "4096 :: 64 word" and k = 20 and i = 2 and m = empty_memory and k' = 20] c
  show ?thesis by simp
qed

text \<open>
  C8, as amended. The accessors check no bounds. For an array of \<open>n\<close> records of
  \<open>k\<close> bytes at base \<open>B\<close> and an index \<open>i\<close> of \<open>n\<close> or more, the call still ends
  normally, with the pointer value of \<open>B + i * k\<close>. Where \<open>B + i * k\<close> is an address,
  the returned pointer holds it, and it is at or past the end of the array and
  outside the valid range of the array.
\<close>

theorem accessor_unchecked_out_of_range:
  fixes B :: "'w::len word"
  assumes "n \<le> unat i"
  shows "get_glyph_info k B i m = (Inr (B + word_of_nat (unat i * k)), m)
       \<and> (unat B + unat i * k < 2 ^ LENGTH('w) \<longrightarrow>
            unat (B + word_of_nat (unat i * k)) = unat B + unat i * k
          \<and> array_end k B n \<le> unat (B + word_of_nat (unat i * k))
          \<and> \<not> in_array k B n (B + word_of_nat (unat i * k)))
       \<and> get_glyph_position k' B i m = (Inr (B + word_of_nat (unat i * k')), m)
       \<and> (unat B + unat i * k' < 2 ^ LENGTH('w) \<longrightarrow>
            unat (B + word_of_nat (unat i * k')) = unat B + unat i * k'
          \<and> array_end k' B n \<le> unat (B + word_of_nat (unat i * k'))
          \<and> \<not> in_array k' B n (B + word_of_nat (unat i * k')))"
proof -
  have located:
    "unat (B + word_of_nat (unat i * s)) = unat B + unat i * s
     \<and> array_end s B n \<le> unat (B + word_of_nat (unat i * s))
     \<and> \<not> in_array s B n (B + word_of_nat (unat i * s))"
    if fits: "unat B + unat i * s < 2 ^ LENGTH('w)" for s
  proof -
    from fits have exact: "unat (B + word_of_nat (unat i * s)) = unat B + unat i * s"
      by (rule unat_offset_exact)
    from assms have "n * s \<le> unat i * s"
      by simp
    then have "array_end s B n \<le> unat B + unat i * s"
      by (simp add: array_end_def)
    with exact show ?thesis
      by (simp add: in_array_def)
  qed
  have info: "get_glyph_info k B i m = (Inr (B + word_of_nat (unat i * k)), m)"
    by (rule get_glyph_info_eq)
  have pos: "get_glyph_position k' B i m = (Inr (B + word_of_nat (unat i * k')), m)"
    by (rule get_glyph_position_eq)
  from info pos located [of k] located [of k'] show ?thesis
    by blast
qed

theorem accessor_unchecked_out_of_range_witness:
  "(3 :: nat) \<le> unat (5 :: uint)
   \<and> unat (4096 :: 64 word) + unat (5 :: uint) * 20 < 2 ^ LENGTH(64)
   \<and> get_glyph_info 20 (4096 :: 64 word) 5 empty_memory = (Inr 4196, empty_memory)
   \<and> get_glyph_position 20 (4096 :: 64 word) 5 empty_memory = (Inr 4196, empty_memory)
   \<and> array_end 20 (4096 :: 64 word) 3 = 4156
   \<and> unat (4196 :: 64 word) = 4196
   \<and> \<not> in_array 20 (4096 :: 64 word) 3 4196"
proof -
  have h: "(3 :: nat) \<le> unat (5 :: uint)" by simp
  have e: "array_end 20 (4096 :: 64 word) 3 = 4156"
    by (simp add: array_end_def)
  from accessor_unchecked_out_of_range
         [OF h, where B = "4096 :: 64 word" and k = 20 and m = empty_memory and k' = 20] h e
  show ?thesis by simp
qed

text \<open>
  C8, as first stated, fails where \<open>B + i * k\<close> leaves the address space. With
  pointers of 64 bits, three records of 20 bytes at base \<open>2 ^ 64 - 256\<close> lie in the
  address space, and index 13 returns the pointer 4, which is before the array and
  not at or past its end. With pointers of 32 bits, three records of 20 bytes at
  base 0x1000 and index 214748365 return the pointer 0x1004, which is in the valid
  range of the array.
\<close>

theorem accessor_out_of_range_wraps:
  "array_at 20 (0xFFFFFFFFFFFFFF00 :: 64 word) 3
   \<and> (3 :: nat) \<le> unat (13 :: uint)
   \<and> get_glyph_info 20 (0xFFFFFFFFFFFFFF00 :: 64 word) 13 empty_memory
       = (Inr 4, empty_memory)
   \<and> \<not> array_end 20 (0xFFFFFFFFFFFFFF00 :: 64 word) 3 \<le> unat (4 :: 64 word)
   \<and> array_at 20 (0x1000 :: 32 word) 3
   \<and> (3 :: nat) \<le> unat (214748365 :: uint)
   \<and> get_glyph_info 20 (0x1000 :: 32 word) 214748365 empty_memory
       = (Inr 0x1004, empty_memory)
   \<and> in_array 20 (0x1000 :: 32 word) 3 0x1004"
  by (simp add: array_at_def array_end_def in_array_def get_glyph_info_eq)

text \<open>
  C9. The index parameter is an \<^verbatim>\<open>unsigned int\<close>: an integer passed for it is
  reduced modulo \<open>2 ^ 32\<close> and the reduced index enters the address computation,
  without an error. So \<open>-1\<close> acts as the index \<open>2 ^ 32 - 1\<close>, an integer and the
  same integer plus \<open>2 ^ 32\<close> act as one index, and every index is below \<open>2 ^ 32\<close>.
\<close>

theorem accessor_index_modulo:
  "get_glyph_info k B (uint_of_int x) m
     = (Inr (B + word_of_nat (nat (x mod 2 ^ 32) * k)), m)
   \<and> get_glyph_position k' B (uint_of_int x) m
     = (Inr (B + word_of_nat (nat (x mod 2 ^ 32) * k')), m)
   \<and> get_glyph_info k B (uint_of_int (- 1)) m
     = (Inr (B + word_of_nat ((2 ^ 32 - 1) * k)), m)
   \<and> get_glyph_position k' B (uint_of_int (- 1)) m
     = (Inr (B + word_of_nat ((2 ^ 32 - 1) * k')), m)
   \<and> unat (uint_of_int x) = nat (x mod 2 ^ 32)
   \<and> unat (uint_of_int (- 1)) = 2 ^ 32 - 1
   \<and> uint_of_int (x + 2 ^ 32) = uint_of_int x
   \<and> unat (uint_of_int x) < 2 ^ 32"
proof -
  have reduced: "unat (uint_of_int y) = nat (y mod 2 ^ 32)" for y
    by (simp add: uint_of_int_def unat_eq_nat_uint uint_word_of_int)
  have "(- 1 :: int) mod 2 ^ 32 = 2 ^ 32 - 1"
    by simp
  then have minus_one: "unat (uint_of_int (- 1)) = 2 ^ 32 - 1"
    unfolding reduced by simp
  have wrap: "uint_of_int (x + 2 ^ 32) = uint_of_int x"
    by (simp add: uint_of_int_def)
  have bound: "unat (uint_of_int x) < 2 ^ 32"
    using unsigned_less [of "uint_of_int x", where 'a = nat] by simp
  show ?thesis
    unfolding get_glyph_info_eq get_glyph_position_eq minus_one
    using wrap bound by (simp add: reduced)
qed

text \<open>
  The sum of two indices is taken in the index type. Where it leaves the range of
  that type it wraps, and with pointers of 64 bits the two steps no longer add up
  to the one: from the last index, one step further is not index 0.
\<close>

lemma index_sum_wraps:
  fixes B :: "64 word"
  shows "c_bind (get_glyph_info 20 B (- 1)) (\<lambda>a. get_glyph_info 20 a 1) m
     = (Inr (B + 0x1400000000), m)
   \<and> get_glyph_info 20 B (- 1 + 1) m = (Inr B, m)
   \<and> B + 0x1400000000 \<noteq> B"
proof -
  have "unat (- 1 :: uint) = 2 ^ 32 - 1"
    using unsigned_minus_1_eq_mask [where 'b = 32 and 'a = nat]
    by (simp add: mask_eq_exp_minus_1)
  then show ?thesis
    by (simp add: c_bind_def get_glyph_info_eq)
qed

text \<open>
  C10. Indexing composes additively. When the sum of two indices is in the range of
  the index type, applying an accessor at the second index to the address the same
  accessor returned for the first index gives what one call at the sum of the
  indices gives.
\<close>

theorem accessor_composes:
  assumes "unat i + unat j < 2 ^ 32"
  shows "c_bind (get_glyph_info k B i) (\<lambda>a. get_glyph_info k a j) m
           = get_glyph_info k B (i + j) m
       \<and> c_bind (get_glyph_position k' B i) (\<lambda>a. get_glyph_position k' a j) m
           = get_glyph_position k' B (i + j) m"
proof -
  from assms have sum: "unat (i + j) = unat i + unat j"
    by (simp add: unat_word_ariths)
  have "B + word_of_nat (unat i * s) + word_of_nat (unat j * s)
          = B + word_of_nat (unat (i + j) * s)" for s
    unfolding sum by (simp add: add_mult_distrib)
  then show ?thesis
    by (simp add: c_bind_def get_glyph_info_eq get_glyph_position_eq)
qed

theorem accessor_composes_witness:
  "unat (1 :: uint) + unat (2 :: uint) < 2 ^ 32
   \<and> c_bind (get_glyph_info 20 (4096 :: 64 word) 1) (\<lambda>a. get_glyph_info 20 a 2) empty_memory
       = (Inr 4156, empty_memory)
   \<and> get_glyph_info 20 (4096 :: 64 word) (1 + 2) empty_memory = (Inr 4156, empty_memory)
   \<and> c_bind (get_glyph_position 20 (4096 :: 64 word) 1) (\<lambda>a. get_glyph_position 20 a 2)
        empty_memory
       = (Inr 4156, empty_memory)"
proof -
  have h: "unat (1 :: uint) + unat (2 :: uint) < 2 ^ 32" by simp
  have "get_glyph_info 20 (4096 :: 64 word) (1 + 2) empty_memory = (Inr 4156, empty_memory)"
    by (simp add: get_glyph_info_eq)
  moreover have "get_glyph_position 20 (4096 :: 64 word) (1 + 2) empty_memory
                   = (Inr 4156, empty_memory)"
    by (simp add: get_glyph_position_eq)
  ultimately show ?thesis
    using accessor_composes
            [OF h, where B = "4096 :: 64 word" and k = 20 and m = empty_memory and k' = 20] h
    by simp
qed

end
